theory Spec2Isabelle
  imports Complex_Main
begin

section \<open>Values shared by the whole service\<close>

text \<open>
  Primary keys are UUIDs in the source; only their equality matters, so they are numbers
  here. A \<open>datetime\<close> is the number of microseconds since 0001-01-01T00:00:00, the
  smallest instant Python's \<open>datetime\<close> can hold.
\<close>

type_synonym uuid = nat
type_synonym datetime = int

text \<open>
  Decoded JSON, as \<open>request.json()\<close> and a JSON column hand it to the code. A
  \<open>JDict\<close> lists the items of a Python dict, so its keys are distinct. JSON numbers
  with a fraction do not occur in any path modelled below and are left out.
\<close>

datatype json =
    JNull
  | JBool bool
  | JInt int
  | JStr string
  | JList "json list"
  | JDict "(string \<times> json) list"

text \<open>Python truth value of a decoded JSON value (\<open>if x:\<close>, \<open>if not x:\<close>).\<close>

fun truthy :: "json \<Rightarrow> bool" where
  "truthy JNull = False"
| "truthy (JBool b) = b"
| "truthy (JInt n) = (n \<noteq> 0)"
| "truthy (JStr s) = (s \<noteq> [])"
| "truthy (JList xs) = (xs \<noteq> [])"
| "truthy (JDict kvs) = (kvs \<noteq> [])"

text \<open>Python exceptions that no handler of the service catches.\<close>

datatype exn = AttributeError | OverflowError | IntegrityError | DBAPIError | KeyError
  | TypeError | JSONDecodeError | ValidationError

text \<open>
  The \<open>detail\<close> of each \<open>HTTPException\<close> the modelled handlers raise. Where the
  source formats a value into the message, the constructor carries that value.
\<close>

datatype detail =
    Wallet_not_found
  | Your_wallet_not_found
  | Insufficient_balance int
  | Recipient_wallet_not_found
  | Cannot_transfer_to_own_wallet
  | Paystack_credentials_not_configured
  | Payment_initiation_failed json
  | Error_communicating_with_Paystack
  | Missing_signature_header
  | Invalid_signature
  | Invalid_JSON_payload
  | Missing_transaction_reference
  | Account_inactive
  | Maximum_active_keys
  | Invalid_expiry_format
  | Invalid_expiry_unit
  | Invalid_key_ID_format
  | API_key_not_found
  | API_key_already_revoked
  | API_key_missing_permissions "string list"
  | Email_not_provided
  | Database_error_handling_user

text \<open>
  A failed call: an \<open>HTTPException\<close> with its status code and detail, or an exception
  that escapes the handler (the framework answers 500).
\<close>

datatype error = HTTPException nat detail | Unhandled exn

section \<open>Tables (\<open>models.py\<close>)\<close>

text \<open>
  One record per mapped class, one field per column a modelled path reads or writes
  (\<open>created_at\<close> and \<open>updated_at\<close> are never read). Column names that several
  tables share carry the table's initial.
\<close>

record user =
  u_id :: uuid
  email :: string
  u_name :: "string option"
  picture :: "string option"
  google_id :: "string option"
  u_is_active :: bool

record wallet =
  w_id :: uuid
  w_user_id :: uuid
  wallet_number :: string
  balance :: int

record api_key =
  k_id :: uuid
  k_name :: string
  key_prefix :: string
  key_hash :: string
  owner_id :: uuid
  permissions :: json
  expires_at :: "datetime option"
  k_is_active :: bool

record txn =
  t_id :: uuid
  reference :: string
  t_user_id :: uuid
  wallet_id :: "uuid option"
  amount :: int
  transaction_type :: string
  status :: string
  recipient_wallet_id :: "uuid option"
  paid_at :: "datetime option"

text \<open>
  The database: each table is the list of its rows. Balances and amounts are Python
  integers; the width of the integer columns belongs to the storage engine and is not
  modelled.
\<close>

record db =
  users :: "user list"
  wallets :: "wallet list"
  api_keys :: "api_key list"
  transactions :: "txn list"

section \<open>Permission gate (\<open>auth_deps.py\<close>)\<close>

text \<open>
  \<open>require_permissions(required_permissions)\<close> returns the checker; applied to the
  pair that \<open>get_current_user_or_service\<close> produced it returns the user or raises 403.
  \<open>perm not in api_key_permissions\<close> compares a string with the elements of the JSON
  list, so only a JSON string equal to it counts.
\<close>




section \<open>Expiry shorthand (\<open>utils.py\<close>)\<close>

text \<open>
  A Python \<open>str\<close> is modelled by a \<open>string\<close> whose characters are its code points,
  so the model covers the strings of code points below 256. Within that range
  \<open>int()\<close> skips the white space below around the number and reads the ASCII digits only.
\<close>

definition is_space :: "char \<Rightarrow> bool" where
  "is_space c = ((of_char c :: nat) \<in> {9, 10, 11, 12, 13, 32, 133, 160})"

definition is_digit :: "char \<Rightarrow> bool" where
  "is_digit c = (48 \<le> (of_char c :: nat) \<and> (of_char c :: nat) \<le> 57)"

definition digit_value :: "char \<Rightarrow> nat" where
  "digit_value c = of_char c - 48"

definition strip :: "string \<Rightarrow> string" where
  "strip s = rev (dropWhile is_space (rev (dropWhile is_space s)))"

text \<open>
  The digits of an \<open>int()\<close> literal after the first one: a single underscore may stand
  between two digits, nowhere else.
\<close>

fun digits_us :: "nat \<Rightarrow> string \<Rightarrow> nat option" where
  "digits_us acc [] = Some acc"
| "digits_us acc [c] = (if is_digit c then Some (acc * 10 + digit_value c) else None)"
| "digits_us acc (c # d # ds) =
     (if is_digit c then digits_us (acc * 10 + digit_value c) (d # ds)
      else if c = CHR ''_'' \<and> is_digit d then digits_us (acc * 10 + digit_value d) ds
      else None)"

definition py_digits :: "string \<Rightarrow> nat option" where
  "py_digits s =
     (case s of [] \<Rightarrow> None
      | c # cs \<Rightarrow> if is_digit c then digits_us (digit_value c) cs else None)"

text \<open>
  \<open>int(s)\<close> in base 10: \<open>None\<close> stands for \<open>ValueError\<close>. The interpreter's
  limit on the number of digits of a literal is not modelled.
\<close>

definition py_int :: "string \<Rightarrow> int option" where
  "py_int s =
     (case strip s of
        [] \<Rightarrow> None
      | c # cs \<Rightarrow>
          if c = CHR ''+'' then map_option int (py_digits cs)
          else if c = CHR ''-'' then map_option (\<lambda>n. - int n) (py_digits cs)
          else map_option int (py_digits (c # cs)))"

text \<open>
  \<open>str.upper()\<close> on the last character. Only ASCII letters are mapped: the upper case
  of every other character is none of \<open>H\<close>, \<open>D\<close>, \<open>M\<close>, \<open>Y\<close>, which is all that
  \<open>parse_expiry\<close> asks of it.
\<close>

definition upper :: "char \<Rightarrow> char" where
  "upper c =
     (case map_of (zip ''abcdefghijklmnopqrstuvwxyz'' ''ABCDEFGHIJKLMNOPQRSTUVWXYZ'') c of
        Some u \<Rightarrow> u
      | None \<Rightarrow> c)"

text \<open>
  \<open>timedelta(days=d, hours=h)\<close> in microseconds; it raises \<open>OverflowError\<close> when the
  normalised number of days exceeds 999999999 in magnitude. Adding a \<open>timedelta\<close> to a
  \<open>datetime\<close> raises \<open>OverflowError\<close> when the sum leaves the years 1 to 9999.
\<close>

definition MAX_DATETIME :: datetime where
  "MAX_DATETIME = 3652059 * 86400000000 - 1"

definition timedelta :: "int \<Rightarrow> int \<Rightarrow> exn + int" where
  "timedelta days hours =
     (let us = days * 86400000000 + hours * 3600000000
      in if \<bar>us div 86400000000\<bar> > 999999999 then Inl OverflowError else Inr us)"

definition datetime_add :: "datetime \<Rightarrow> int \<Rightarrow> exn + datetime" where
  "datetime_add t d =
     (if 0 \<le> t + d \<and> t + d \<le> MAX_DATETIME then Inr (t + d) else Inl OverflowError)"

text \<open>\<open>now + timedelta(...)\<close>: neither exception is caught by \<open>parse_expiry\<close>.\<close>

definition now_plus :: "datetime \<Rightarrow> exn + int \<Rightarrow> error + datetime" where
  "now_plus now td =
     (case td of
        Inl e \<Rightarrow> Inl (Unhandled e)
      | Inr d \<Rightarrow> (case datetime_add now d of Inl e \<Rightarrow> Inl (Unhandled e) | Inr t \<Rightarrow> Inr t))"

text \<open>
  \<open>parse_expiry(expiry_str)\<close>; \<open>now\<close> is what \<open>datetime.utcnow()\<close> returns. The
  detail of the unknown-unit error does not carry the unit.
\<close>

definition parse_expiry :: "datetime \<Rightarrow> string \<Rightarrow> error + datetime" where
  "parse_expiry now expiry_str =
     (if expiry_str = [] \<or> length expiry_str < 2
      then Inl (HTTPException 400 Invalid_expiry_format)
      else
        let num_str = butlast expiry_str;
            unit = upper (last expiry_str)
        in case py_int num_str of
             None \<Rightarrow> Inl (HTTPException 400 Invalid_expiry_format)
           | Some num \<Rightarrow>
               if num \<le> 0 then Inl (HTTPException 400 Invalid_expiry_format)
               else if unit = CHR ''H'' then now_plus now (timedelta 0 num)
               else if unit = CHR ''D'' then now_plus now (timedelta num 0)
               else if unit = CHR ''M'' then now_plus now (timedelta (num * 30) 0)
               else if unit = CHR ''Y'' then now_plus now (timedelta (num * 365) 0)
               else Inl (HTTPException 400 Invalid_expiry_unit))"




section \<open>Ledger (\<open>routers/wallet.py\<close>)\<close>

text \<open>
  What the handlers take from outside the repository: the settings, the clock, and the
  library functions \<open>hmac.new(key, msg, sha512).hexdigest()\<close>,
  \<open>datetime.fromisoformat\<close> (\<open>None\<close> for \<open>ValueError\<close>),
  \<open>hashlib.sha256(...).hexdigest()\<close>, the constructor \<open>UUID(...)\<close> (\<open>None\<close> for
  \<open>ValueError\<close>) and the signed token that \<open>create_access_token\<close> encodes for a
  user id.
\<close>

record env =
  PAYSTACK_SECRET_KEY :: "string option"
  PAYSTACK_WEBHOOK_SECRET :: "string option"
  utcnow :: datetime
  hmac_sha512 :: "string \<Rightarrow> string \<Rightarrow> string"
  fromisoformat :: "string \<Rightarrow> datetime option"
  sha256 :: "string \<Rightarrow> string"
  UUID :: "string \<Rightarrow> uuid option"
  create_access_token :: "uuid \<Rightarrow> string"

text \<open>\<open>not settings.X\<close>: the setting is absent or the empty string.\<close>

definition unset :: "string option \<Rightarrow> bool" where
  "unset x = (x = None \<or> x = Some [])"

subsection \<open>Queries and writes\<close>

text \<open>
  \<open>select(T).where(c)\<close> followed by \<open>.scalars().first()\<close> is the first row that
  satisfies \<open>c\<close>. A comparison of the primary key with \<open>None\<close> matches no row.
\<close>

definition wallet_by_user :: "db \<Rightarrow> uuid \<Rightarrow> wallet option" where
  "wallet_by_user s uid = find (\<lambda>w. w_user_id w = uid) (wallets s)"

definition wallet_by_number :: "db \<Rightarrow> string \<Rightarrow> wallet option" where
  "wallet_by_number s n = find (\<lambda>w. wallet_number w = n) (wallets s)"

definition wallet_by_id :: "db \<Rightarrow> uuid option \<Rightarrow> wallet option" where
  "wallet_by_id s i = (case i of None \<Rightarrow> None | Some j \<Rightarrow> find (\<lambda>w. w_id w = j) (wallets s))"

definition txn_by_reference :: "db \<Rightarrow> string \<Rightarrow> txn option" where
  "txn_by_reference s r = find (\<lambda>t. reference t = r) (transactions s)"

text \<open>
  A commit writes each changed object back to the row with its primary key, and inserts
  each added object; an insert that breaks the primary key or a unique column raises
  \<open>IntegrityError\<close> and the unit of work is rolled back. The foreign keys of a new row
  point at rows the handler has just read, so they are not checked here.
\<close>

definition update_wallet :: "wallet \<Rightarrow> wallet list \<Rightarrow> wallet list" where
  "update_wallet w ws = map (\<lambda>x. if w_id x = w_id w then w else x) ws"

definition update_txn :: "txn \<Rightarrow> txn list \<Rightarrow> txn list" where
  "update_txn t ts = map (\<lambda>x. if t_id x = t_id t then t else x) ts"

definition insert_txn :: "txn \<Rightarrow> txn list \<Rightarrow> exn + txn list" where
  "insert_txn t ts =
     (if t_id t \<in> t_id ` set ts \<or> reference t \<in> reference ` set ts
      then Inl IntegrityError else Inr (ts @ [t]))"

text \<open>\<open>generate_reference()\<close>; \<open>token\<close> is what \<open>secrets.token_hex(16)\<close> returns.\<close>

definition generate_reference :: "string \<Rightarrow> string" where
  "generate_reference token = ''txn_'' @ token"

text \<open>\<open>x.get(key, default)\<close>: only a dict has the method.\<close>

definition dict_get :: "json \<Rightarrow> string \<Rightarrow> json \<Rightarrow> exn + json" where
  "dict_get x k dflt =
     (case x of
        JDict kvs \<Rightarrow> Inr (case map_of kvs k of None \<Rightarrow> dflt | Some v \<Rightarrow> v)
      | _ \<Rightarrow> Inl AttributeError)"

subsection \<open>Deposit initiation\<close>

text \<open>
  The validator of \<open>WalletDepositRequest.amount\<close>: naira to kobo. The amount is a float
  in the source; here it is a rational, and \<open>int()\<close> truncates toward zero. \<open>None\<close>
  stands for the validation error.
\<close>

definition py_trunc :: "rat \<Rightarrow> int" where
  "py_trunc x = (if 0 \<le> x then \<lfloor>x\<rfloor> else \<lceil>x\<rceil>)"

definition validate_and_convert_amount :: "rat \<Rightarrow> int option" where
  "validate_and_convert_amount v = (if v < 1 then None else Some (py_trunc (v * 100)))"

text \<open>
  What the call to the gateway gives back: \<open>httpx.RequestError\<close>, or a response with
  its status code and what \<open>response.json()\<close> returns (\<open>None\<close> when it raises).
\<close>

datatype gateway = RequestError | Response nat "json option"

text \<open>\<open>x[key]\<close> with a string key.\<close>

definition subscript :: "json \<Rightarrow> string \<Rightarrow> exn + json" where
  "subscript x k =
     (case x of
        JDict kvs \<Rightarrow> (case map_of kvs k of None \<Rightarrow> Inl KeyError | Some v \<Rightarrow> Inr v)
      | _ \<Rightarrow> Inl TypeError)"

text \<open>
  \<open>initiate_deposit\<close>, for the authenticated \<open>current_user\<close> and the converted
  \<open>deposit.amount\<close>; \<open>new_id\<close> is the primary key drawn for the new row. The result
  is the pair (reference, authorization URL). The response model is built after the
  commit, so a URL that is not a string fails the call with the row already stored.
\<close>

definition initiate_deposit ::
  "env \<Rightarrow> db \<Rightarrow> user \<Rightarrow> int \<Rightarrow> string \<Rightarrow> uuid \<Rightarrow> gateway \<Rightarrow> (error + string \<times> string) \<times> db" where
  "initiate_deposit e s current_user deposit_amount token new_id gw =
     (case wallet_by_user s (u_id current_user) of
        None \<Rightarrow> (Inl (HTTPException 404 Wallet_not_found), s)
      | Some wallet \<Rightarrow>
          if unset (PAYSTACK_SECRET_KEY e)
          then (Inl (HTTPException 500 Paystack_credentials_not_configured), s)
          else
            let ref = generate_reference token in
            (case gw of
               RequestError \<Rightarrow> (Inl (HTTPException 500 Error_communicating_with_Paystack), s)
             | Response status_code None \<Rightarrow> (Inl (Unhandled JSONDecodeError), s)
             | Response status_code (Some response_data) \<Rightarrow>
                 (case dict_get response_data ''status'' JNull of
                    Inl x \<Rightarrow> (Inl (Unhandled x), s)
                  | Inr st \<Rightarrow>
                      if status_code \<noteq> 200 \<or> \<not> truthy st
                      then (case dict_get response_data ''message'' (JStr ''Payment initiation failed'') of
                              Inl x \<Rightarrow> (Inl (Unhandled x), s)
                            | Inr m \<Rightarrow> (Inl (HTTPException 402 (Payment_initiation_failed m)), s))
                      else
                        (case subscript response_data ''data'' of
                           Inl x \<Rightarrow> (Inl (Unhandled x), s)
                         | Inr d \<Rightarrow>
                             (case subscript d ''authorization_url'' of
                                Inl x \<Rightarrow> (Inl (Unhandled x), s)
                              | Inr authorization_url \<Rightarrow>
                                  (case insert_txn
                                          \<lparr>t_id = new_id, reference = ref,
                                           t_user_id = u_id current_user,
                                           wallet_id = Some (w_id wallet),
                                           amount = deposit_amount,
                                           transaction_type = ''deposit'',
                                           status = ''pending'',
                                           recipient_wallet_id = None,
                                           paid_at = None\<rparr>
                                          (transactions s) of
                                     Inl x \<Rightarrow> (Inl (Unhandled x), s)
                                   | Inr ts \<Rightarrow>
                                       (case authorization_url of
                                          JStr url \<Rightarrow> (Inr (ref, url), s\<lparr>transactions := ts\<rparr>)
                                        | _ \<Rightarrow> (Inl (Unhandled ValidationError),
                                                s\<lparr>transactions := ts\<rparr>))))))))"

subsection \<open>Webhook\<close>

text \<open>
  \<open>hmac.compare_digest\<close> on two \<open>str\<close> raises \<open>TypeError\<close> unless both are ASCII;
  the hex digest always is.
\<close>

definition verify_paystack_signature :: "env \<Rightarrow> string \<Rightarrow> string \<Rightarrow> exn + bool" where
  "verify_paystack_signature e payload signature =
     (case PAYSTACK_WEBHOOK_SECRET e of
        None \<Rightarrow> Inr False
      | Some secret \<Rightarrow>
          if secret = [] then Inr False
          else if \<exists>c\<in>set signature. 128 \<le> (of_char c :: nat) then Inl TypeError
          else Inr (hmac_sha512 e secret payload = signature))"

text \<open>
  The request as the handler reads it: the raw body, the \<open>x-paystack-signature\<close>
  header, and what \<open>request.json()\<close> returns for the body (\<open>None\<close> when it raises).
\<close>

record request =
  body :: string
  x_paystack_signature :: "string option"
  parsed :: "json option"

text \<open>\<open>s.replace("Z", "+00:00")\<close>\<close>

definition replace_Z :: "string \<Rightarrow> string" where
  "replace_Z s = concat (map (\<lambda>c. if c = CHR ''Z'' then ''+00:00'' else [c]) s)"

text \<open>
  The value given to \<open>transaction.paid_at\<close>. A \<open>paid_at\<close> that is true but not a
  string has no \<open>replace\<close>: \<open>AttributeError\<close>, which the handler does not catch.
\<close>

definition paid_at_value :: "env \<Rightarrow> json \<Rightarrow> exn + datetime" where
  "paid_at_value e paid_at_str =
     (if truthy paid_at_str
      then (case paid_at_str of
              JStr str \<Rightarrow> Inr (case fromisoformat e (replace_Z str) of
                                  Some t \<Rightarrow> t
                                | None \<Rightarrow> utcnow e)
            | _ \<Rightarrow> Inl AttributeError)
      else Inr (utcnow e))"

text \<open>
  \<open>paystack_webhook\<close> from the lookup of the transaction on: \<open>event\<close> and \<open>data\<close>
  are the values read from the payload, \<open>ref\<close> the reference. An exception before the
  commit leaves the database as it was.
\<close>

definition reconcile :: "env \<Rightarrow> db \<Rightarrow> json \<Rightarrow> json \<Rightarrow> string \<Rightarrow> (error + bool) \<times> db" where
  "reconcile e s event data ref =
     (case txn_by_reference s ref of
        None \<Rightarrow> (Inr True, s)
      | Some transaction \<Rightarrow>
          if status transaction = ''success'' then (Inr True, s)
          else if event = JStr ''charge.success'' then
            (case wallet_by_id s (wallet_id transaction) of
               None \<Rightarrow> (Inr True, s)
             | Some wallet \<Rightarrow>
                 (case dict_get data ''paid_at'' JNull of
                    Inl x \<Rightarrow> (Inl (Unhandled x), s)
                  | Inr paid_at_str \<Rightarrow>
                      (case paid_at_value e paid_at_str of
                         Inl x \<Rightarrow> (Inl (Unhandled x), s)
                       | Inr p \<Rightarrow>
                           (Inr True,
                            s\<lparr>wallets :=
                                 update_wallet
                                   (wallet\<lparr>balance := balance wallet + amount transaction\<rparr>)
                                   (wallets s),
                              transactions :=
                                 update_txn (transaction\<lparr>status := ''success'', paid_at := Some p\<rparr>)
                                   (transactions s)\<rparr>))))
          else if event = JStr ''charge.failed'' then
            (Inr True,
             s\<lparr>transactions := update_txn (transaction\<lparr>status := ''failed''\<rparr>) (transactions s)\<rparr>)
          else (Inr True, s))"

text \<open>
  \<open>paystack_webhook\<close>. A reference that is true but not a string cannot be compared
  with the \<open>reference\<close> column: the query fails in the database driver.
\<close>

definition paystack_webhook :: "env \<Rightarrow> db \<Rightarrow> request \<Rightarrow> (error + bool) \<times> db" where
  "paystack_webhook e s req =
     (let signature = (case x_paystack_signature req of None \<Rightarrow> [] | Some v \<Rightarrow> v) in
      if signature = [] then (Inl (HTTPException 400 Missing_signature_header), s)
      else
        (case verify_paystack_signature e (body req) signature of
           Inl x \<Rightarrow> (Inl (Unhandled x), s)
         | Inr ok \<Rightarrow>
             if \<not> ok then (Inl (HTTPException 400 Invalid_signature), s)
             else
               (case parsed req of
                  None \<Rightarrow> (Inl (HTTPException 400 Invalid_JSON_payload), s)
                | Some payload \<Rightarrow>
                    (case dict_get payload ''event'' JNull of
                       Inl x \<Rightarrow> (Inl (Unhandled x), s)
                     | Inr event \<Rightarrow>
                         (case dict_get payload ''data'' (JDict []) of
                            Inl x \<Rightarrow> (Inl (Unhandled x), s)
                          | Inr data \<Rightarrow>
                              (case dict_get data ''reference'' JNull of
                                 Inl x \<Rightarrow> (Inl (Unhandled x), s)
                               | Inr r \<Rightarrow>
                                   if \<not> truthy r
                                   then (Inl (HTTPException 400 Missing_transaction_reference), s)
                                   else (case r of
                                           JStr ref \<Rightarrow> reconcile e s event data ref
                                         | _ \<Rightarrow> (Inl (Unhandled DBAPIError), s))))))))"

text \<open>
  A request that passes the signature check and whose payload carries \<open>event\<close>, the
  \<open>data\<close> object and, in it, the reference \<open>ref\<close>.
\<close>

definition signed_event :: "env \<Rightarrow> request \<Rightarrow> json \<Rightarrow> json \<Rightarrow> string \<Rightarrow> bool" where
  "signed_event e req event data ref =
     (case x_paystack_signature req of
        None \<Rightarrow> False
      | Some sg \<Rightarrow>
          sg \<noteq> [] \<and> verify_paystack_signature e (body req) sg = Inr True
          \<and> (case parsed req of
                None \<Rightarrow> False
              | Some payload \<Rightarrow>
                  dict_get payload ''event'' JNull = Inr event
                  \<and> dict_get payload ''data'' (JDict []) = Inr data
                  \<and> dict_get data ''reference'' JNull = Inr (JStr ref)
                  \<and> ref \<noteq> []))"

subsection \<open>Transfer\<close>

text \<open>
  \<open>WalletTransferRequest\<close> and its field constraints (\<open>min_length=13\<close>,
  \<open>max_length=13\<close>, \<open>ge=100\<close>).
\<close>

record WalletTransferRequest =
  req_wallet_number :: string
  req_amount :: int

definition WalletTransferRequest_valid :: "WalletTransferRequest \<Rightarrow> bool" where
  "WalletTransferRequest_valid r = (length (req_wallet_number r) = 13 \<and> 100 \<le> req_amount r)"

text \<open>
  \<open>transfer_funds\<close> for the authenticated \<open>current_user\<close>. The result is the
  \<open>data\<close> of the response: reference, amount, recipient wallet number.
\<close>

definition transfer_funds ::
  "env \<Rightarrow> db \<Rightarrow> user \<Rightarrow> WalletTransferRequest \<Rightarrow> string \<Rightarrow> uuid
     \<Rightarrow> (error + string \<times> int \<times> string) \<times> db" where
  "transfer_funds e s current_user transfer token new_id =
     (case wallet_by_user s (u_id current_user) of
        None \<Rightarrow> (Inl (HTTPException 404 Your_wallet_not_found), s)
      | Some sender_wallet \<Rightarrow>
          if balance sender_wallet < req_amount transfer
          then (Inl (HTTPException 400 (Insufficient_balance (balance sender_wallet))), s)
          else
            (case wallet_by_number s (req_wallet_number transfer) of
               None \<Rightarrow> (Inl (HTTPException 404 Recipient_wallet_not_found), s)
             | Some recipient_wallet \<Rightarrow>
                 if w_id sender_wallet = w_id recipient_wallet
                 then (Inl (HTTPException 400 Cannot_transfer_to_own_wallet), s)
                 else
                   let ref = generate_reference token in
                   (case insert_txn
                           \<lparr>t_id = new_id, reference = ref, t_user_id = u_id current_user,
                            wallet_id = Some (w_id sender_wallet),
                            amount = req_amount transfer,
                            transaction_type = ''transfer'',
                            status = ''success'',
                            recipient_wallet_id = Some (w_id recipient_wallet),
                            paid_at = Some (utcnow e)\<rparr>
                           (transactions s) of
                      Inl x \<Rightarrow> (Inl (Unhandled x), s)
                    | Inr ts \<Rightarrow>
                        (Inr (ref, req_amount transfer, req_wallet_number transfer),
                         s\<lparr>wallets :=
                              update_wallet
                                (recipient_wallet\<lparr>balance :=
                                   balance recipient_wallet + req_amount transfer\<rparr>)
                                (update_wallet
                                   (sender_wallet\<lparr>balance :=
                                      balance sender_wallet - req_amount transfer\<rparr>)
                                   (wallets s)),
                           transactions := ts\<rparr>))))"

text \<open>The balance stored for a wallet id.\<close>

definition balance_of :: "db \<Rightarrow> uuid \<Rightarrow> int option" where
  "balance_of s i = map_option balance (find (\<lambda>w. w_id w = i) (wallets s))"

subsection \<open>Sequences of ledger operations\<close>

text \<open>
  One ledger operation: a deposit initiation whose amount passed the validator, a webhook
  call, or a transfer whose request passed validation; with any caller, any request and
  any answer of the outside world.
\<close>

inductive ledger_step :: "db \<Rightarrow> db \<Rightarrow> bool" where
  deposit: "validate_and_convert_amount v = Some a
            \<Longrightarrow> initiate_deposit e s u a token new_id gw = (r, s') \<Longrightarrow> ledger_step s s'"
| webhook: "paystack_webhook e s req = (r, s') \<Longrightarrow> ledger_step s s'"
| transfer: "WalletTransferRequest_valid tr
            \<Longrightarrow> transfer_funds e s u tr token new_id = (r, s') \<Longrightarrow> ledger_step s s'"

text \<open>The invariant of the ledger: no negative balance, no negative amount.\<close>

definition ledger_inv :: "db \<Rightarrow> bool" where
  "ledger_inv s = ((\<forall>w\<in>set (wallets s). 0 \<le> balance w) \<and> (\<forall>t\<in>set (transactions s). 0 \<le> amount t))"

section \<open>API keys (\<open>routers/api_keys.py\<close>, \<open>utils.py\<close>)\<close>

text \<open>
  \<open>generate_api_key()\<close>, where \<open>token\<close> is what \<open>secrets.token_hex(32)\<close> returns,
  \<open>hash_api_key\<close> and \<open>get_api_key_prefix\<close>.
\<close>

definition generate_api_key :: "string \<Rightarrow> string" where
  "generate_api_key token = ''sk_live_'' @ token"

definition hash_api_key :: "env \<Rightarrow> string \<Rightarrow> string" where
  "hash_api_key e api_key = sha256 e api_key"

definition get_api_key_prefix :: "string \<Rightarrow> string" where
  "get_api_key_prefix api_key = take 16 api_key"

text \<open>The validated body of a create request (\<open>APIKeyCreate\<close>).\<close>

record APIKeyCreate =
  kc_name :: string
  kc_permissions :: "string list"
  kc_expiry :: string

text \<open>\<open>select(func.count())\<close> over the active keys of an owner.\<close>

definition active_count :: "db \<Rightarrow> uuid \<Rightarrow> nat" where
  "active_count s uid = length (filter (\<lambda>k. owner_id k = uid \<and> k_is_active k) (api_keys s))"

definition insert_api_key :: "api_key \<Rightarrow> api_key list \<Rightarrow> exn + api_key list" where
  "insert_api_key k ks =
     (if k_id k \<in> k_id ` set ks \<or> key_hash k \<in> key_hash ` set ks
      then Inl IntegrityError else Inr (ks @ [k]))"

definition update_api_key :: "api_key \<Rightarrow> api_key list \<Rightarrow> api_key list" where
  "update_api_key k ks = map (\<lambda>x. if k_id x = k_id k then k else x) ks"

text \<open>
  \<open>create_api_key\<close> for the JWT-authenticated \<open>current_user\<close>; the result is the pair
  (raw key, expiry) of \<open>APIKeyResponse\<close>.
\<close>

definition create_api_key ::
  "env \<Rightarrow> db \<Rightarrow> user \<Rightarrow> APIKeyCreate \<Rightarrow> string \<Rightarrow> uuid
     \<Rightarrow> (error + string \<times> datetime option) \<times> db" where
  "create_api_key e s current_user key_data token new_id =
     (if \<not> u_is_active current_user then (Inl (HTTPException 403 Account_inactive), s)
      else if active_count s (u_id current_user) \<ge> 5
      then (Inl (HTTPException 400 Maximum_active_keys), s)
      else
        let raw_key = generate_api_key token;
            hashed = hash_api_key e raw_key;
            prefix = get_api_key_prefix raw_key
        in (case parse_expiry (utcnow e) (kc_expiry key_data) of
              Inl err \<Rightarrow> (Inl err, s)
            | Inr expires \<Rightarrow>
                (case insert_api_key
                        \<lparr>k_id = new_id, k_name = kc_name key_data, key_prefix = prefix,
                         key_hash = hashed, owner_id = u_id current_user,
                         permissions = JList (map JStr (kc_permissions key_data)),
                         expires_at = Some expires, k_is_active = True\<rparr>
                        (api_keys s) of
                   Inl x \<Rightarrow> (Inl (Unhandled x), s)
                 | Inr ks \<Rightarrow> (Inr (raw_key, Some expires), s\<lparr>api_keys := ks\<rparr>))))"

text \<open>
  \<open>revoke_api_key\<close>; the result is the \<open>data\<close> of the response: key id and key name.
\<close>

definition revoke_api_key :: "env \<Rightarrow> db \<Rightarrow> user \<Rightarrow> string \<Rightarrow> (error + string \<times> string) \<times> db" where
  "revoke_api_key e s current_user key_id =
     (case UUID e key_id of
        None \<Rightarrow> (Inl (HTTPException 400 Invalid_key_ID_format), s)
      | Some key_uuid \<Rightarrow>
          (case find (\<lambda>k. k_id k = key_uuid \<and> owner_id k = u_id current_user) (api_keys s) of
             None \<Rightarrow> (Inl (HTTPException 404 API_key_not_found), s)
           | Some key \<Rightarrow>
               if \<not> k_is_active key then (Inl (HTTPException 400 API_key_already_revoked), s)
               else (Inr (key_id, k_name key),
                     s\<lparr>api_keys := update_api_key (key\<lparr>k_is_active := False\<rparr>) (api_keys s)\<rparr>)))"

section \<open>Identity resolution (\<open>routers/google_auth.py\<close>, \<open>models.py\<close>)\<close>

text \<open>
  \<open>Wallet.generate_wallet_number()\<close>: \<open>f"4{n:012d}"\<close>, where \<open>n\<close> is what
  \<open>secrets.randbelow(10**12)\<close> returns. \<open>decimal_digits\<close> is the decimal numeral of a
  number, \<open>format_012d\<close> pads it with zeros to twelve characters.
\<close>

function decimal_digits :: "nat \<Rightarrow> string" where
  "decimal_digits n =
     (if n < 10 then [''0123456789'' ! n]
      else decimal_digits (n div 10) @ [''0123456789'' ! (n mod 10)])"
  by pat_completeness auto
termination
  by (relation "measure id") auto

declare decimal_digits.simps [simp del]

definition format_012d :: "nat \<Rightarrow> string" where
  "format_012d n = replicate (12 - length (decimal_digits n)) CHR ''0'' @ decimal_digits n"

definition generate_wallet_number :: "nat \<Rightarrow> string" where
  "generate_wallet_number n = CHR ''4'' # format_012d n"

text \<open>
  A value bound to a nullable string column: \<open>None\<close> is stored as NULL, a string as it
  is, and anything else is refused by the driver (outer \<open>None\<close>).
\<close>

definition storable_str :: "json \<Rightarrow> string option option" where
  "storable_str j = (case j of JNull \<Rightarrow> Some None | JStr x \<Rightarrow> Some (Some x) | _ \<Rightarrow> None)"

text \<open>
  Inserts with the constraints of the two tables: primary key, unique \<open>email\<close>, unique
  \<open>google_id\<close> (NULLs do not collide); primary key, unique \<open>user_id\<close>, unique
  \<open>wallet_number\<close>.
\<close>

definition insert_user :: "user \<Rightarrow> user list \<Rightarrow> exn + user list" where
  "insert_user u us =
     (if u_id u \<in> u_id ` set us \<or> email u \<in> email ` set us
         \<or> (google_id u \<noteq> None \<and> google_id u \<in> google_id ` set us)
      then Inl IntegrityError else Inr (us @ [u]))"

definition update_user :: "user \<Rightarrow> user list \<Rightarrow> exn + user list" where
  "update_user u us =
     (if google_id u \<noteq> None \<and> (\<exists>x\<in>set us. u_id x \<noteq> u_id u \<and> google_id x = google_id u)
      then Inl IntegrityError
      else Inr (map (\<lambda>x. if u_id x = u_id u then u else x) us))"

definition insert_wallet :: "wallet \<Rightarrow> wallet list \<Rightarrow> exn + wallet list" where
  "insert_wallet w ws =
     (if w_id w \<in> w_id ` set ws \<or> w_user_id w \<in> w_user_id ` set ws
         \<or> wallet_number w \<in> wallet_number ` set ws
      then Inl IntegrityError else Inr (ws @ [w]))"

text \<open>\<open>d.get(key)\<close> on the items of a dict.\<close>

definition items_get :: "(string \<times> json) list \<Rightarrow> string \<Rightarrow> json" where
  "items_get kvs k = (case map_of kvs k of None \<Rightarrow> JNull | Some v \<Rightarrow> v)"

text \<open>
  \<open>google_callback\<close> from the point where the user info has been fetched:
  \<open>user_info\<close> is the decoded answer of the identity provider. The checks of the
  anti-forgery state and the two calls to the provider come before and do not touch the
  database. \<open>new_uid\<close> and \<open>new_wid\<close> are the primary keys drawn for a new user and
  a new wallet, \<open>n\<close> the random number of the wallet number. Every exception inside
  the \<open>try\<close> block becomes status 500; the new user is committed before the wallet is
  added, so a failure of the second commit leaves the user stored. The result is
  (user id, email, name, access token).
\<close>

definition google_callback ::
  "env \<Rightarrow> db \<Rightarrow> json \<Rightarrow> uuid \<Rightarrow> uuid \<Rightarrow> nat
     \<Rightarrow> (error + uuid \<times> string \<times> string option \<times> string) \<times> db" where
  "google_callback e s user_info new_uid new_wid n =
     (case user_info of
        JDict kvs \<Rightarrow>
          (let gid_v = items_get kvs ''id'';
               email_v = items_get kvs ''email'';
               name_v = items_get kvs ''name'';
               picture_v = items_get kvs ''picture''
           in if \<not> truthy email_v then (Inl (HTTPException 400 Email_not_provided), s)
              else
                (case (storable_str gid_v, storable_str email_v, storable_str name_v,
                       storable_str picture_v) of
                   (Some gid, Some (Some em), Some nm, Some pic) \<Rightarrow>
                     (case find (\<lambda>u. google_id u = gid \<or> email u = em) (users s) of
                        Some existing_user \<Rightarrow>
                          (let usr = existing_user\<lparr>google_id := gid, u_name := nm, picture := pic\<rparr>
                           in case update_user usr (users s) of
                                Inl x \<Rightarrow> (Inl (HTTPException 500 Database_error_handling_user), s)
                              | Inr us \<Rightarrow>
                                  (Inr (u_id usr, email usr, u_name usr,
                                        create_access_token e (u_id usr)),
                                   s\<lparr>users := us\<rparr>))
                      | None \<Rightarrow>
                          (let usr = \<lparr>u_id = new_uid, email = em, u_name = nm, picture = pic,
                                      google_id = gid, u_is_active = True\<rparr>
                           in case insert_user usr (users s) of
                                Inl x \<Rightarrow> (Inl (HTTPException 500 Database_error_handling_user), s)
                              | Inr us \<Rightarrow>
                                  (case insert_wallet
                                          \<lparr>w_id = new_wid, w_user_id = u_id usr,
                                           wallet_number = generate_wallet_number n,
                                           balance = 0\<rparr>
                                          (wallets s) of
                                     Inl x \<Rightarrow>
                                       (Inl (HTTPException 500 Database_error_handling_user),
                                        s\<lparr>users := us\<rparr>)
                                   | Inr ws \<Rightarrow>
                                       (Inr (u_id usr, email usr, u_name usr,
                                             create_access_token e (u_id usr)),
                                        s\<lparr>users := us, wallets := ws\<rparr>))))
                 | _ \<Rightarrow> (Inl (HTTPException 500 Database_error_handling_user), s)))
      | _ \<Rightarrow> (Inl (Unhandled AttributeError), s))"

section \<open>Example data\<close>

text \<open>A small database and the requests used to run the handlers on concrete inputs.\<close>

definition ex_env :: env where
  "ex_env = \<lparr>PAYSTACK_SECRET_KEY = Some ''sk_test'', PAYSTACK_WEBHOOK_SECRET = Some ''whsec'',
     utcnow = 63929347200000000, hmac_sha512 = (\<lambda>k m. ''ab12''),
     fromisoformat = (\<lambda>x. None), sha256 = (\<lambda>x. ''h:'' @ x),
     UUID = (\<lambda>x. if x = ''k1'' then Some 1 else None),
     create_access_token = (\<lambda>i. ''jwt'')\<rparr>"

definition ex_alice :: user where
  "ex_alice = \<lparr>u_id = 1, email = ''a@x.com'', u_name = None, picture = None,
     google_id = Some ''g1'', u_is_active = True\<rparr>"

definition ex_wallet_a :: wallet where
  "ex_wallet_a = \<lparr>w_id = 10, w_user_id = 1, wallet_number = ''4000000000001'', balance = 1000\<rparr>"

definition ex_wallet_b :: wallet where
  "ex_wallet_b = \<lparr>w_id = 20, w_user_id = 2, wallet_number = ''4000000000002'', balance = 0\<rparr>"

definition ex_deposit :: txn where
  "ex_deposit = \<lparr>t_id = 100, reference = ''txn_a'', t_user_id = 2, wallet_id = Some 20,
     amount = 500, transaction_type = ''deposit'', status = ''pending'',
     recipient_wallet_id = None, paid_at = None\<rparr>"

definition ex_db :: db where
  "ex_db = \<lparr>users = [ex_alice], wallets = [ex_wallet_a, ex_wallet_b], api_keys = [],
     transactions = [ex_deposit]\<rparr>"

definition ex_charge_success :: request where
  "ex_charge_success = \<lparr>body = ''{...}'', x_paystack_signature = Some ''ab12'',
     parsed = Some (JDict [(''event'', JStr ''charge.success''),
                           (''data'', JDict [(''reference'', JStr ''txn_a'')])])\<rparr>"

definition ex_transfer :: WalletTransferRequest where
  "ex_transfer = \<lparr>req_wallet_number = ''4000000000002'', req_amount = 300\<rparr>"

definition ex_key :: "uuid \<Rightarrow> api_key" where
  "ex_key i = \<lparr>k_id = i, k_name = ''ci'', key_prefix = ''sk_live_00000000'',
     key_hash = replicate i CHR ''a'', owner_id = 1, permissions = JList [JStr ''read''],
     expires_at = None, k_is_active = True\<rparr>"

definition ex_keys_db :: db where
  "ex_keys_db = ex_db\<lparr>api_keys := [ex_key 1, ex_key 2, ex_key 3, ex_key 4, ex_key 5]\<rparr>"

definition ex_key_data :: APIKeyCreate where
  "ex_key_data = \<lparr>kc_name = ''ci'', kc_permissions = [''read''], kc_expiry = ''1D''\<rparr>"

definition ex_user_info :: json where
  "ex_user_info = JDict [(''id'', JStr ''g9''), (''email'', JStr ''new@x.com''),
     (''name'', JStr ''New'')]"

section \<open>Theorems\<close>





subsection \<open>Expiry shorthand\<close>
























subsection \<open>Ledger\<close>

lemma webhook_signed:
  "signed_event e req event data ref \<Longrightarrow> paystack_webhook e s req = reconcile e s event data ref"
  unfolding signed_event_def paystack_webhook_def
  by (auto simp: Let_def split: option.splits)

lemma find_by_id_update_wallet:
  "find (\<lambda>w. w_id w = i) (update_wallet w' ws)
     = (case find (\<lambda>w. w_id w = i) ws of
          None \<Rightarrow> None
        | Some x \<Rightarrow> if i = w_id w' then Some w' else Some x)"
  unfolding update_wallet_def by (induction ws) auto

lemma find_by_ref_update_txn:
  "find (\<lambda>x. reference x = r) ts = Some t \<Longrightarrow> reference t' = r \<Longrightarrow> t_id t' = t_id t
   \<Longrightarrow> find (\<lambda>x. reference x = r) (update_txn t' ts) = Some t'"
  unfolding update_txn_def by (induction ts) (auto split: if_splits)

lemma reconcile_success_noop:
  "txn_by_reference s ref = Some t \<Longrightarrow> status t = ''success''
   \<Longrightarrow> reconcile e s event data ref = (Inr True, s)"
  by (simp add: reconcile_def)

lemma reconcile_credit:
  assumes "txn_by_reference s ref = Some t" "status t \<noteq> ''success''"
    and "wallet_by_id s (wallet_id t) = Some w"
    and "dict_get data ''paid_at'' JNull = Inr pa" "paid_at_value e pa = Inr p"
  shows "reconcile e s (JStr ''charge.success'') data ref =
     (Inr True,
      s\<lparr>wallets := update_wallet (w\<lparr>balance := balance w + amount t\<rparr>) (wallets s),
        transactions := update_txn (t\<lparr>status := ''success'', paid_at := Some p\<rparr>) (transactions s)\<rparr>)"
  using assms by (simp add: reconcile_def)

lemma wallet_by_id_Some: "wallet_by_id s i = Some w \<Longrightarrow> i = Some (w_id w)"
  by (auto simp: wallet_by_id_def find_Some_iff split: option.splits)

lemma wallet_by_id_find:
  "wallet_by_id s i = Some w \<Longrightarrow> find (\<lambda>x. w_id x = w_id w) (wallets s) = Some w"
  by (auto simp: wallet_by_id_def find_Some_iff split: option.splits)

lemma txn_by_reference_ref: "txn_by_reference s ref = Some t \<Longrightarrow> reference t = ref"
  by (auto simp: txn_by_reference_def find_Some_iff)

lemma credited_state:
  assumes t: "txn_by_reference s ref = Some t" and w: "wallet_by_id s (wallet_id t) = Some w"
    and s1: "s1 = s\<lparr>wallets := update_wallet (w\<lparr>balance := balance w + amount t\<rparr>) (wallets s),
        transactions := update_txn (t\<lparr>status := ''success'', paid_at := Some p\<rparr>) (transactions s)\<rparr>"
  shows "balance_of s1 (w_id w) = Some (balance w + amount t)"
    and "\<forall>i. i \<noteq> w_id w \<longrightarrow> balance_of s1 i = balance_of s i"
    and "txn_by_reference s1 ref = Some (t\<lparr>status := ''success'', paid_at := Some p\<rparr>)"
proof -
  have f: "find (\<lambda>x. w_id x = w_id w) (wallets s) = Some w"
    by (rule wallet_by_id_find [OF w])
  show "balance_of s1 (w_id w) = Some (balance w + amount t)"
    by (simp add: s1 balance_of_def find_by_id_update_wallet f)
  show "\<forall>i. i \<noteq> w_id w \<longrightarrow> balance_of s1 i = balance_of s i"
    by (simp add: s1 balance_of_def find_by_id_update_wallet split: option.splits)
  have r: "reference t = ref" by (rule txn_by_reference_ref [OF t])
  show "txn_by_reference s1 ref = Some (t\<lparr>status := ''success'', paid_at := Some p\<rparr>)"
    using t r by (simp add: s1 txn_by_reference_def find_by_ref_update_txn)
qed

text \<open>
  C1. For a correctly signed webhook call that names the reference of a stored
  transaction: if the transaction is already \<open>success\<close> the call changes nothing and
  returns acceptance; if it is a pending deposit whose wallet exists and the event is
  \<open>charge.success\<close> (with a \<open>paid_at\<close> that is absent or a string), the call credits
  the wallet by the amount, once, marks the transaction \<open>success\<close>, and every later
  signed call for the same reference leaves the database as it is and returns acceptance.
\<close>

theorem confirm_deposit_idempotent:
  assumes ev: "signed_event e req event data ref" and t: "txn_by_reference s ref = Some t"
  shows "(status t = ''success'' \<longrightarrow> paystack_webhook e s req = (Inr True, s))
    \<and> (status t = ''pending'' \<and> event = JStr ''charge.success''
        \<and> wallet_by_id s (wallet_id t) = Some w
        \<and> dict_get data ''paid_at'' JNull = Inr pa \<and> paid_at_value e pa = Inr p
       \<longrightarrow> (\<exists>s1. paystack_webhook e s req = (Inr True, s1)
             \<and> balance_of s1 (w_id w) = Some (balance w + amount t)
             \<and> (\<forall>i. i \<noteq> w_id w \<longrightarrow> balance_of s1 i = balance_of s i)
             \<and> map_option status (txn_by_reference s1 ref) = Some ''success''
             \<and> (\<forall>e2 req2 event2 data2. signed_event e2 req2 event2 data2 ref
                   \<longrightarrow> paystack_webhook e2 s1 req2 = (Inr True, s1))))"
proof (intro conjI impI)
  assume "status t = ''success''"
  then show "paystack_webhook e s req = (Inr True, s)"
    using webhook_signed [OF ev] reconcile_success_noop [OF t] by simp
next
  assume a: "status t = ''pending'' \<and> event = JStr ''charge.success''
        \<and> wallet_by_id s (wallet_id t) = Some w
        \<and> dict_get data ''paid_at'' JNull = Inr pa \<and> paid_at_value e pa = Inr p"
  define s1 where "s1 = s\<lparr>wallets := update_wallet (w\<lparr>balance := balance w + amount t\<rparr>) (wallets s),
        transactions := update_txn (t\<lparr>status := ''success'', paid_at := Some p\<rparr>) (transactions s)\<rparr>"
  from a have ns: "status t \<noteq> ''success''" by simp
  have first: "paystack_webhook e s req = (Inr True, s1)"
    using webhook_signed [OF ev] reconcile_credit [OF t ns, of w data pa e p] a
    by (simp add: s1_def)
  note c = credited_state [OF t _ s1_def]
  have w: "wallet_by_id s (wallet_id t) = Some w" using a by simp
  have st: "map_option status (txn_by_reference s1 ref) = Some ''success''"
    using c(3) [OF w] by simp
  have again: "\<forall>e2 req2 event2 data2. signed_event e2 req2 event2 data2 ref
                   \<longrightarrow> paystack_webhook e2 s1 req2 = (Inr True, s1)"
  proof (intro allI impI)
    fix e2 req2 event2 data2
    assume ev2: "signed_event e2 req2 event2 data2 ref"
    show "paystack_webhook e2 s1 req2 = (Inr True, s1)"
      using webhook_signed [OF ev2] reconcile_success_noop [OF c(3) [OF w]] by simp
  qed
  show "\<exists>s1. paystack_webhook e s req = (Inr True, s1)
             \<and> balance_of s1 (w_id w) = Some (balance w + amount t)
             \<and> (\<forall>i. i \<noteq> w_id w \<longrightarrow> balance_of s1 i = balance_of s i)
             \<and> map_option status (txn_by_reference s1 ref) = Some ''success''
             \<and> (\<forall>e2 req2 event2 data2. signed_event e2 req2 event2 data2 ref
                   \<longrightarrow> paystack_webhook e2 s1 req2 = (Inr True, s1))"
    using first c(1) [OF w] c(2) [OF w] st again by blast
qed

lemma find_Some_mem: "find P xs = Some x \<Longrightarrow> x \<in> set xs \<and> P x"
  by (auto simp: find_Some_iff)

lemma set_update_wallet: "set (update_wallet w ws) \<subseteq> insert w (set ws)"
  by (auto simp: update_wallet_def)

lemma set_update_txn: "set (update_txn t ts) \<subseteq> insert t (set ts)"
  by (auto simp: update_txn_def)

lemma insert_txn_Inr: "insert_txn t ts = Inr ts' \<Longrightarrow> ts' = ts @ [t]"
  by (auto simp: insert_txn_def split: if_splits)

lemma validate_amount_ge: "validate_and_convert_amount v = Some a \<Longrightarrow> 100 \<le> a"
proof -
  assume h: "validate_and_convert_amount v = Some a"
  then have v: "1 \<le> v" and a: "a = py_trunc (v * 100)"
    by (auto simp: validate_and_convert_amount_def split: if_splits)
  from v have "(100::rat) \<le> v * 100" by simp
  then have "of_int 100 \<le> v * 100" by simp
  then have "100 \<le> \<lfloor>v * 100\<rfloor>" by (simp only: le_floor_iff)
  moreover have "0 \<le> v * 100" using v by simp
  ultimately show ?thesis using a by (simp add: py_trunc_def)
qed

lemma update_wallet_nonneg:
  "\<forall>x\<in>set ws. 0 \<le> balance x \<Longrightarrow> 0 \<le> balance w \<Longrightarrow> \<forall>x\<in>set (update_wallet w ws). 0 \<le> balance x"
  by (auto simp: update_wallet_def)

lemma update_txn_nonneg:
  "\<forall>x\<in>set ts. 0 \<le> amount x \<Longrightarrow> 0 \<le> amount t \<Longrightarrow> \<forall>x\<in>set (update_txn t ts). 0 \<le> amount x"
  by (auto simp: update_txn_def)

lemma inv_add_txn:
  "ledger_inv s \<Longrightarrow> 0 \<le> amount t \<Longrightarrow> insert_txn t (transactions s) = Inr ts
   \<Longrightarrow> ledger_inv (s\<lparr>transactions := ts\<rparr>)"
  by (auto simp: ledger_inv_def dest!: insert_txn_Inr)

lemma inv_initiate_deposit:
  assumes i: "ledger_inv s" and a: "0 \<le> a"
    and r: "initiate_deposit e s u a token new_id gw = (r, s')"
  shows "ledger_inv s'"
  using r i a unfolding initiate_deposit_def ledger_inv_def
  by (auto simp: Let_def dest!: insert_txn_Inr
      split: option.splits if_splits gateway.splits sum.splits json.splits)

lemma inv_reconcile:
  assumes i: "ledger_inv s" and r: "reconcile e s event data ref = (r, s')"
  shows "ledger_inv s'"
proof (cases "txn_by_reference s ref")
  case None
  then show ?thesis using i r by (simp add: reconcile_def)
next
  case (Some t)
  then have tm: "t \<in> set (transactions s)"
    by (auto simp: txn_by_reference_def dest: find_Some_mem)
  then have ta: "0 \<le> amount t" using i by (simp add: ledger_inv_def)
  have ws: "\<forall>x\<in>set (wallets s). 0 \<le> balance x" and ts: "\<forall>x\<in>set (transactions s). 0 \<le> amount x"
    using i by (simp_all add: ledger_inv_def)
  have failed: "ledger_inv (s\<lparr>transactions := update_txn (t\<lparr>status := ''failed''\<rparr>) (transactions s)\<rparr>)"
    using update_txn_nonneg [OF ts, of "t\<lparr>status := ''failed''\<rparr>"] ta ws
    by (simp add: ledger_inv_def)
  have credit: "ledger_inv (s\<lparr>wallets := update_wallet (w\<lparr>balance := balance w + amount t\<rparr>) (wallets s),
        transactions := update_txn (t\<lparr>status := ''success'', paid_at := Some p\<rparr>) (transactions s)\<rparr>)"
    if w: "wallet_by_id s (wallet_id t) = Some w" for w p
  proof -
    from w have "w \<in> set (wallets s)"
      by (auto simp: wallet_by_id_def split: option.splits dest: find_Some_mem)
    then have "0 \<le> balance w" using ws by simp
    then have "0 \<le> balance (w\<lparr>balance := balance w + amount t\<rparr>)" using ta by simp
    from update_wallet_nonneg [OF ws this]
      update_txn_nonneg [OF ts, of "t\<lparr>status := ''success'', paid_at := Some p\<rparr>"] ta
    show ?thesis by (simp add: ledger_inv_def)
  qed
  show ?thesis
    using r Some i failed credit unfolding reconcile_def
    by (auto split: if_splits option.splits sum.splits)
qed

lemma inv_paystack_webhook:
  assumes i: "ledger_inv s" and r: "paystack_webhook e s req = (r, s')"
  shows "ledger_inv s'"
proof -
  have "s' = s \<or> (\<exists>event data ref. reconcile e s event data ref = (r, s'))"
    using r unfolding paystack_webhook_def
    by (auto simp: Let_def split: option.splits if_splits sum.splits json.splits)
  then show ?thesis using i inv_reconcile by blast
qed

lemma inv_transfer_funds:
  assumes i: "ledger_inv s" and v: "0 \<le> req_amount tr"
    and r: "transfer_funds e s u tr token new_id = (r, s')"
  shows "ledger_inv s'"
proof -
  have ws: "\<forall>x\<in>set (wallets s). 0 \<le> balance x" and ts: "\<forall>x\<in>set (transactions s). 0 \<le> amount x"
    using i by (simp_all add: ledger_inv_def)
  have moved: "ledger_inv (s\<lparr>wallets :=
        update_wallet (wr\<lparr>balance := balance wr + req_amount tr\<rparr>)
          (update_wallet (wsn\<lparr>balance := balance wsn - req_amount tr\<rparr>) (wallets s)),
        transactions := ts'\<rparr>)"
    if a: "wallet_by_user s (u_id u) = Some wsn" and b: "\<not> balance wsn < req_amount tr"
      and c: "wallet_by_number s (req_wallet_number tr) = Some wr"
      and d: "insert_txn t (transactions s) = Inr ts'" and e: "amount t = req_amount tr"
    for wsn wr ts' t
  proof -
    have "0 \<le> balance (wsn\<lparr>balance := balance wsn - req_amount tr\<rparr>)" using b by simp
    from update_wallet_nonneg [OF ws this]
    have 1: "\<forall>x\<in>set (update_wallet (wsn\<lparr>balance := balance wsn - req_amount tr\<rparr>) (wallets s)).
              0 \<le> balance x" .
    from c have "wr \<in> set (wallets s)"
      by (auto simp: wallet_by_number_def dest: find_Some_mem)
    then have "0 \<le> balance (wr\<lparr>balance := balance wr + req_amount tr\<rparr>)" using ws v by simp
    from update_wallet_nonneg [OF 1 this]
    have 2: "\<forall>x\<in>set (update_wallet (wr\<lparr>balance := balance wr + req_amount tr\<rparr>)
          (update_wallet (wsn\<lparr>balance := balance wsn - req_amount tr\<rparr>) (wallets s))). 0 \<le> balance x" .
    have "ts' = transactions s @ [t]" by (rule insert_txn_Inr [OF d])
    then have "\<forall>x\<in>set ts'. 0 \<le> amount x" using ts e v by auto
    then show ?thesis using 2 by (simp add: ledger_inv_def)
  qed
  show ?thesis
    using r i unfolding transfer_funds_def
    by (auto simp: Let_def intro!: moved split: option.splits if_splits sum.splits)
qed

lemma inv_ledger_step: "ledger_step s s' \<Longrightarrow> ledger_inv s \<Longrightarrow> ledger_inv s'"
proof (induction rule: ledger_step.induct)
  case (deposit v a e s u token new_id gw r s')
  from validate_amount_ge [OF deposit(1)] have "0 \<le> a" by simp
  then show ?case using inv_initiate_deposit deposit by blast
next
  case (webhook e s req r s')
  then show ?case using inv_paystack_webhook by blast
next
  case (transfer tr e s u token new_id r s')
  then have "0 \<le> req_amount tr" by (simp add: WalletTransferRequest_valid_def)
  then show ?case using inv_transfer_funds transfer by blast
qed

text \<open>
  C4. From a database whose wallet balances and transaction amounts are not negative,
  every database reached by any sequence of deposit initiations, webhook calls and
  transfers has only wallets with a balance of at least zero.
\<close>

theorem balances_never_negative:
  assumes "\<forall>w\<in>set (wallets s0). 0 \<le> balance w" and "\<forall>t\<in>set (transactions s0). 0 \<le> amount t"
    and "ledger_step\<^sup>*\<^sup>* s0 s"
  shows "\<forall>w\<in>set (wallets s). 0 \<le> balance w"
proof -
  have "ledger_inv s0" using assms(1,2) by (simp add: ledger_inv_def)
  with assms(3) have "ledger_inv s"
    by (induction rule: rtranclp_induct) (auto intro: inv_ledger_step)
  then show ?thesis by (simp add: ledger_inv_def)
qed

lemma find_mem_not_None: "x \<in> set xs \<Longrightarrow> P x \<Longrightarrow> find P xs \<noteq> None"
  by (auto simp: find_None_iff)

text \<open>
  C3. A transfer that succeeds was made between two wallets with different ids; afterwards
  the sender's wallet holds its former balance minus the amount, the recipient's wallet
  its former balance plus the amount, the two together hold what they held before, and
  no other wallet's balance has changed.
\<close>

theorem transfer_conservation:
  assumes ok: "transfer_funds e s u tr token new_id = (Inr resp, s')"
  shows "\<exists>sender recipient.
           wallet_by_user s (u_id u) = Some sender
         \<and> wallet_by_number s (req_wallet_number tr) = Some recipient
         \<and> w_id sender \<noteq> w_id recipient
         \<and> balance_of s' (w_id sender) = Some (balance sender - req_amount tr)
         \<and> balance_of s' (w_id recipient) = Some (balance recipient + req_amount tr)
         \<and> (balance sender - req_amount tr) + (balance recipient + req_amount tr)
             = balance sender + balance recipient
         \<and> (\<forall>i. i \<noteq> w_id sender \<and> i \<noteq> w_id recipient \<longrightarrow> balance_of s' i = balance_of s i)"
proof -
  from ok obtain sender recipient ts where
    a: "wallet_by_user s (u_id u) = Some sender"
    and b: "wallet_by_number s (req_wallet_number tr) = Some recipient"
    and d: "w_id sender \<noteq> w_id recipient"
    and s': "s' = s\<lparr>wallets :=
        update_wallet (recipient\<lparr>balance := balance recipient + req_amount tr\<rparr>)
          (update_wallet (sender\<lparr>balance := balance sender - req_amount tr\<rparr>) (wallets s)),
        transactions := ts\<rparr>"
    unfolding transfer_funds_def
    by (auto simp: Let_def split: option.splits if_splits sum.splits)
  from a have "sender \<in> set (wallets s)"
    by (auto simp: wallet_by_user_def dest: find_Some_mem)
  then have fs: "find (\<lambda>w. w_id w = w_id sender) (wallets s) \<noteq> None"
    by (rule find_mem_not_None) simp
  from b have "recipient \<in> set (wallets s)"
    by (auto simp: wallet_by_number_def dest: find_Some_mem)
  then have fr: "find (\<lambda>w. w_id w = w_id recipient) (wallets s) \<noteq> None"
    by (rule find_mem_not_None) simp
  have 1: "balance_of s' (w_id sender) = Some (balance sender - req_amount tr)"
    using fs d by (auto simp: s' balance_of_def find_by_id_update_wallet split: option.splits)
  have 2: "balance_of s' (w_id recipient) = Some (balance recipient + req_amount tr)"
    using fr d by (auto simp: s' balance_of_def find_by_id_update_wallet split: option.splits)
  have 3: "\<forall>i. i \<noteq> w_id sender \<and> i \<noteq> w_id recipient \<longrightarrow> balance_of s' i = balance_of s i"
    by (auto simp: s' balance_of_def find_by_id_update_wallet split: option.splits)
  show ?thesis using a b d 1 2 3 by auto
qed

text \<open>
  C5. A transfer whose amount exceeds the balance of the sender's wallet fails with
  status 400 "Insufficient balance" (the specification's InsufficientFunds) and leaves
  the whole database, so both balances and the transaction table, unchanged.
\<close>

theorem transfer_insufficient_funds:
  assumes "wallet_by_user s (u_id u) = Some sender" and "balance sender < req_amount tr"
  shows "transfer_funds e s u tr token new_id
           = (Inl (HTTPException 400 (Insufficient_balance (balance sender))), s)"
  using assms by (simp add: transfer_funds_def)

text \<open>
  C10. A correctly signed \<open>charge.success\<close> event whose reference matches a pending
  transaction with no wallet row for its \<open>wallet_id\<close> is answered with acceptance and
  leaves the database unchanged: the transaction stays pending, nothing is credited.
\<close>

theorem webhook_wallet_missing:
  assumes "signed_event e req (JStr ''charge.success'') data ref"
    and "txn_by_reference s ref = Some t" and "status t = ''pending''"
    and "wallet_by_id s (wallet_id t) = None"
  shows "paystack_webhook e s req = (Inr True, s)"
  using webhook_signed [OF assms(1)] assms(2,3,4) by (simp add: reconcile_def)

text \<open>
  C2 (amended). A transaction in status \<open>success\<close> is final: a signed webhook call for
  its reference changes nothing. A transaction in status \<open>failed\<close> stays \<open>failed\<close>,
  with every wallet unchanged, under every event except \<open>charge.success\<close>; the guard
  of the handler covers \<open>success\<close> only, so a \<open>charge.success\<close> event for a failed
  transaction whose wallet exists credits the wallet and marks it \<open>success\<close>.
\<close>

theorem terminal_transactions_amended:
  assumes ev: "signed_event e req event data ref" and t: "txn_by_reference s ref = Some t"
  shows "(status t = ''success'' \<longrightarrow> paystack_webhook e s req = (Inr True, s))
    \<and> (status t = ''failed'' \<and> event \<noteq> JStr ''charge.success''
         \<longrightarrow> (\<exists>s1. paystack_webhook e s req = (Inr True, s1) \<and> wallets s1 = wallets s
                \<and> map_option status (txn_by_reference s1 ref) = Some ''failed''))
    \<and> (status t = ''failed'' \<and> event = JStr ''charge.success''
        \<and> wallet_by_id s (wallet_id t) = Some w
        \<and> dict_get data ''paid_at'' JNull = Inr pa \<and> paid_at_value e pa = Inr p
         \<longrightarrow> (\<exists>s1. paystack_webhook e s req = (Inr True, s1)
                \<and> balance_of s1 (w_id w) = Some (balance w + amount t)
                \<and> map_option status (txn_by_reference s1 ref) = Some ''success''))"
proof (intro conjI impI)
  assume "status t = ''success''"
  then show "paystack_webhook e s req = (Inr True, s)"
    using webhook_signed [OF ev] reconcile_success_noop [OF t] by simp
next
  assume a: "status t = ''failed'' \<and> event \<noteq> JStr ''charge.success''"
  have r: "reference t = ref" by (rule txn_by_reference_ref [OF t])
  have f: "txn_by_reference (s\<lparr>transactions := update_txn (t\<lparr>status := ''failed''\<rparr>) (transactions s)\<rparr>) ref
             = Some (t\<lparr>status := ''failed''\<rparr>)"
    using t r by (simp add: txn_by_reference_def find_by_ref_update_txn)
  show "\<exists>s1. paystack_webhook e s req = (Inr True, s1) \<and> wallets s1 = wallets s
                \<and> map_option status (txn_by_reference s1 ref) = Some ''failed''"
  proof (cases "event = JStr ''charge.failed''")
    case True
    then have "paystack_webhook e s req
        = (Inr True, s\<lparr>transactions := update_txn (t\<lparr>status := ''failed''\<rparr>) (transactions s)\<rparr>)"
      using webhook_signed [OF ev] t a by (simp add: reconcile_def)
    then show ?thesis using f by simp
  next
    case False
    then have "paystack_webhook e s req = (Inr True, s)"
      using webhook_signed [OF ev] t a by (simp add: reconcile_def)
    then show ?thesis using t a by simp
  qed
next
  assume a: "status t = ''failed'' \<and> event = JStr ''charge.success''
        \<and> wallet_by_id s (wallet_id t) = Some w
        \<and> dict_get data ''paid_at'' JNull = Inr pa \<and> paid_at_value e pa = Inr p"
  define s1 where "s1 = s\<lparr>wallets := update_wallet (w\<lparr>balance := balance w + amount t\<rparr>) (wallets s),
        transactions := update_txn (t\<lparr>status := ''success'', paid_at := Some p\<rparr>) (transactions s)\<rparr>"
  from a have ns: "status t \<noteq> ''success''" by simp
  have first: "paystack_webhook e s req = (Inr True, s1)"
    using webhook_signed [OF ev] reconcile_credit [OF t ns, of w data pa e p] a
    by (simp add: s1_def)
  have w: "wallet_by_id s (wallet_id t) = Some w" using a by simp
  note c = credited_state [OF t w s1_def]
  show "\<exists>s1. paystack_webhook e s req = (Inr True, s1)
                \<and> balance_of s1 (w_id w) = Some (balance w + amount t)
                \<and> map_option status (txn_by_reference s1 ref) = Some ''success''"
    using first c(1) c(3) by auto
qed

lemmas ex_defs = ex_env_def ex_alice_def ex_wallet_a_def ex_wallet_b_def ex_deposit_def ex_db_def
  ex_charge_success_def ex_transfer_def

lemma ex_signed:
  "signed_event ex_env ex_charge_success (JStr ''charge.success'')
     (JDict [(''reference'', JStr ''txn_a'')]) ''txn_a''"
  by (simp add: signed_event_def ex_defs verify_paystack_signature_def dict_get_def)

theorem confirm_deposit_idempotent_witness:
  "balance_of (snd (paystack_webhook ex_env ex_db ex_charge_success)) 20 = Some 500
   \<and> paystack_webhook ex_env (snd (paystack_webhook ex_env ex_db ex_charge_success)) ex_charge_success
       = (Inr True, snd (paystack_webhook ex_env ex_db ex_charge_success))"
proof -
  have t: "txn_by_reference ex_db ''txn_a'' = Some ex_deposit"
    by (simp add: txn_by_reference_def ex_defs)
  have h: "status ex_deposit = ''pending'' \<and> JStr ''charge.success'' = JStr ''charge.success''
        \<and> wallet_by_id ex_db (wallet_id ex_deposit) = Some ex_wallet_b
        \<and> dict_get (JDict [(''reference'', JStr ''txn_a'')]) ''paid_at'' JNull = Inr JNull
        \<and> paid_at_value ex_env JNull = Inr (utcnow ex_env)"
    by (simp add: wallet_by_id_def dict_get_def paid_at_value_def ex_defs)
  from confirm_deposit_idempotent [OF ex_signed t, of ex_wallet_b JNull "utcnow ex_env"] h
  obtain s1 where 1: "paystack_webhook ex_env ex_db ex_charge_success = (Inr True, s1)"
    and 2: "balance_of s1 (w_id ex_wallet_b) = Some (balance ex_wallet_b + amount ex_deposit)"
    and 3: "\<forall>e2 req2 event2 data2. signed_event e2 req2 event2 data2 ''txn_a''
                   \<longrightarrow> paystack_webhook e2 s1 req2 = (Inr True, s1)"
    by blast
  from 3 ex_signed have "paystack_webhook ex_env s1 ex_charge_success = (Inr True, s1)" by blast
  then show ?thesis using 1 2 by (simp add: ex_wallet_b_def ex_deposit_def)
qed

text \<open>
  C2 (as stated, it fails). A \<open>charge.success\<close> event for a transaction in status
  \<open>failed\<close> credits the wallet (0 becomes 500) and marks the transaction \<open>success\<close>.
\<close>

theorem terminal_transactions_counterexample:
  "status (ex_deposit\<lparr>status := ''failed''\<rparr>) = ''failed''
   \<and> txn_by_reference (ex_db\<lparr>transactions := [ex_deposit\<lparr>status := ''failed''\<rparr>]\<rparr>) ''txn_a''
       = Some (ex_deposit\<lparr>status := ''failed''\<rparr>)
   \<and> balance_of (ex_db\<lparr>transactions := [ex_deposit\<lparr>status := ''failed''\<rparr>]\<rparr>) 20 = Some 0
   \<and> paystack_webhook ex_env (ex_db\<lparr>transactions := [ex_deposit\<lparr>status := ''failed''\<rparr>]\<rparr>)
        ex_charge_success
       = (Inr True,
          ex_db\<lparr>wallets := [ex_wallet_a, ex_wallet_b\<lparr>balance := 500\<rparr>],
                transactions := [ex_deposit\<lparr>status := ''success'',
                                   paid_at := Some 63929347200000000\<rparr>]\<rparr>)"
  by (simp add: paystack_webhook_def reconcile_def verify_paystack_signature_def dict_get_def
      paid_at_value_def txn_by_reference_def wallet_by_id_def balance_of_def update_wallet_def
      update_txn_def ex_defs Let_def)

theorem terminal_transactions_amended_witness:
  "paystack_webhook ex_env (ex_db\<lparr>transactions := [ex_deposit\<lparr>status := ''success''\<rparr>]\<rparr>)
        ex_charge_success
       = (Inr True, ex_db\<lparr>transactions := [ex_deposit\<lparr>status := ''success''\<rparr>]\<rparr>)
   \<and> balance_of (snd (paystack_webhook ex_env
         (ex_db\<lparr>transactions := [ex_deposit\<lparr>status := ''failed''\<rparr>]\<rparr>) ex_charge_success)) 20
       = Some 500"
proof -
  let ?ok = "ex_db\<lparr>transactions := [ex_deposit\<lparr>status := ''success''\<rparr>]\<rparr>"
  let ?bad = "ex_db\<lparr>transactions := [ex_deposit\<lparr>status := ''failed''\<rparr>]\<rparr>"
  have t1: "txn_by_reference ?ok ''txn_a'' = Some (ex_deposit\<lparr>status := ''success''\<rparr>)"
    by (simp add: txn_by_reference_def ex_defs)
  have t2: "txn_by_reference ?bad ''txn_a'' = Some (ex_deposit\<lparr>status := ''failed''\<rparr>)"
    by (simp add: txn_by_reference_def ex_defs)
  have h: "status (ex_deposit\<lparr>status := ''failed''\<rparr>) = ''failed''
        \<and> JStr ''charge.success'' = JStr ''charge.success''
        \<and> wallet_by_id ?bad (wallet_id (ex_deposit\<lparr>status := ''failed''\<rparr>)) = Some ex_wallet_b
        \<and> dict_get (JDict [(''reference'', JStr ''txn_a'')]) ''paid_at'' JNull = Inr JNull
        \<and> paid_at_value ex_env JNull = Inr (utcnow ex_env)"
    by (simp add: wallet_by_id_def dict_get_def paid_at_value_def ex_defs)
  have a: "paystack_webhook ex_env ?ok ex_charge_success = (Inr True, ?ok)"
    using terminal_transactions_amended [OF ex_signed t1] by simp
  from terminal_transactions_amended [OF ex_signed t2, of ex_wallet_b JNull "utcnow ex_env"] h
  obtain s1 where "paystack_webhook ex_env ?bad ex_charge_success = (Inr True, s1)"
    and "balance_of s1 (w_id ex_wallet_b)
           = Some (balance ex_wallet_b + amount (ex_deposit\<lparr>status := ''failed''\<rparr>))"
    by blast
  then show ?thesis using a by (simp add: ex_wallet_b_def ex_deposit_def)
qed

theorem webhook_wallet_missing_witness:
  "paystack_webhook ex_env (ex_db\<lparr>transactions := [ex_deposit\<lparr>wallet_id := Some 99\<rparr>]\<rparr>)
        ex_charge_success
     = (Inr True, ex_db\<lparr>transactions := [ex_deposit\<lparr>wallet_id := Some 99\<rparr>]\<rparr>)"
proof -
  let ?s = "ex_db\<lparr>transactions := [ex_deposit\<lparr>wallet_id := Some 99\<rparr>]\<rparr>"
  have t: "txn_by_reference ?s ''txn_a'' = Some (ex_deposit\<lparr>wallet_id := Some 99\<rparr>)"
    by (simp add: txn_by_reference_def ex_defs)
  have p: "status (ex_deposit\<lparr>wallet_id := Some 99\<rparr>) = ''pending''"
    by (simp add: ex_defs)
  have w: "wallet_by_id ?s (wallet_id (ex_deposit\<lparr>wallet_id := Some 99\<rparr>)) = None"
    by (simp add: wallet_by_id_def ex_defs)
  show ?thesis by (rule webhook_wallet_missing [OF ex_signed t p w])
qed

theorem transfer_conservation_witness:
  "balance_of (snd (transfer_funds ex_env ex_db ex_alice ex_transfer ''00ff'' 101)) 10 = Some 700
   \<and> balance_of (snd (transfer_funds ex_env ex_db ex_alice ex_transfer ''00ff'' 101)) 20 = Some 300"
proof -
  have ok: "transfer_funds ex_env ex_db ex_alice ex_transfer ''00ff'' 101
      = (Inr (''txn_00ff'', 300, ''4000000000002''),
         snd (transfer_funds ex_env ex_db ex_alice ex_transfer ''00ff'' 101))"
    by (simp add: transfer_funds_def wallet_by_user_def wallet_by_number_def insert_txn_def
        generate_reference_def ex_defs Let_def)
  have a: "wallet_by_user ex_db (u_id ex_alice) = Some ex_wallet_a"
    by (simp add: wallet_by_user_def ex_defs)
  have b: "wallet_by_number ex_db (req_wallet_number ex_transfer) = Some ex_wallet_b"
    by (simp add: wallet_by_number_def ex_defs)
  from transfer_conservation [OF ok] a b
  show ?thesis by (auto simp: ex_wallet_a_def ex_wallet_b_def ex_transfer_def)
qed

theorem transfer_insufficient_funds_witness:
  "transfer_funds ex_env ex_db ex_alice \<lparr>req_wallet_number = ''4000000000002'', req_amount = 1500\<rparr>
      ''00ff'' 101
     = (Inl (HTTPException 400 (Insufficient_balance 1000)), ex_db)"
proof -
  have a: "wallet_by_user ex_db (u_id ex_alice) = Some ex_wallet_a"
    by (simp add: wallet_by_user_def ex_defs)
  have b: "balance ex_wallet_a < req_amount \<lparr>req_wallet_number = ''4000000000002'', req_amount = 1500\<rparr>"
    by (simp add: ex_defs)
  from transfer_insufficient_funds [OF a b, of ex_env "''00ff''" 101]
  show ?thesis by (simp add: ex_wallet_a_def)
qed

theorem balances_never_negative_witness:
  "list_all (\<lambda>w. 0 \<le> balance w)
     (wallets (snd (paystack_webhook ex_env
        (snd (transfer_funds ex_env ex_db ex_alice ex_transfer ''00ff'' 101)) ex_charge_success)))"
proof -
  let ?s1 = "snd (transfer_funds ex_env ex_db ex_alice ex_transfer ''00ff'' 101)"
  let ?s2 = "snd (paystack_webhook ex_env ?s1 ex_charge_success)"
  have w: "\<forall>w\<in>set (wallets ex_db). 0 \<le> balance w" by (simp add: ex_defs)
  have t: "\<forall>t\<in>set (transactions ex_db). 0 \<le> amount t" by (simp add: ex_defs)
  have v: "WalletTransferRequest_valid ex_transfer"
    by (simp add: WalletTransferRequest_valid_def ex_defs)
  have 1: "ledger_step ex_db ?s1"
    by (rule ledger_step.transfer [OF v, of ex_env ex_db ex_alice "''00ff''" 101
          "fst (transfer_funds ex_env ex_db ex_alice ex_transfer ''00ff'' 101)"]) simp
  have 2: "ledger_step ?s1 ?s2"
    by (rule ledger_step.webhook [of ex_env ?s1 ex_charge_success
          "fst (paystack_webhook ex_env ?s1 ex_charge_success)"]) simp
  have "ledger_step\<^sup>*\<^sup>* ex_db ?s2" using 1 2 by auto
  from balances_never_negative [OF w t this]
  show ?thesis by (simp add: list_all_iff)
qed

subsection \<open>API keys and identity resolution\<close>

lemma update_api_key_ids: "map k_id (update_api_key k ks) = map k_id ks"
  by (induction ks) (auto simp: update_api_key_def)

lemma update_api_key_hashes:
  "k \<in> set ks \<Longrightarrow> key_hash k' = key_hash k \<Longrightarrow> k_id k' = k_id k
   \<Longrightarrow> key_hash ` set (update_api_key k' ks) \<subseteq> key_hash ` set ks"
  by (auto simp: update_api_key_def)

lemma update_api_key_fresh:
  "k_id k \<notin> k_id ` set ks \<Longrightarrow> update_api_key k ks = ks"
  by (induction ks) (auto simp: update_api_key_def)

lemma revoke_count:
  assumes "distinct (map k_id ks)" and "key \<in> set ks" and "Q key" and "\<not> Q key'"
    and "k_id key' = k_id key"
  shows "Suc (length (filter Q (update_api_key key' ks))) = length (filter Q ks)"
  using assms
proof (induction ks)
  case Nil
  then show ?case by simp
next
  case (Cons a ks)
  show ?case
  proof (cases "a = key")
    case True
    then have "k_id key' \<notin> k_id ` set ks" using Cons.prems by auto
    then have "update_api_key key' ks = ks" by (rule update_api_key_fresh)
    then have "update_api_key key' (a # ks) = key' # ks"
      using True Cons.prems(5) by (simp add: update_api_key_def)
    then show ?thesis using True Cons.prems by simp
  next
    case False
    then have m: "key \<in> set ks" using Cons.prems by simp
    then have "k_id a \<noteq> k_id key" using Cons.prems(1) by auto
    then have u: "update_api_key key' (a # ks) = a # update_api_key key' ks"
      using Cons.prems(5) by (simp add: update_api_key_def)
    have "Suc (length (filter Q (update_api_key key' ks))) = length (filter Q ks)"
      using Cons.IH Cons.prems m by simp
    then show ?thesis using u by simp
  qed
qed

text \<open>
  C8. For an active owner with five or more active keys, \<open>create_api_key\<close> fails with
  status 400 "Maximum of 5 active API keys" (the specification's QuotaExceeded) and stores
  nothing. With exactly five, revoking one of the owner's active keys succeeds and leaves
  four active keys; a create with a valid expiry and a fresh key then succeeds and stores
  one more key, the fifth active one.
\<close>

theorem api_key_quota:
  "(u_is_active u \<and> 5 \<le> active_count s (u_id u)
      \<longrightarrow> create_api_key e s u kd token new_id = (Inl (HTTPException 400 Maximum_active_keys), s))
   \<and> (u_is_active u \<and> active_count s (u_id u) = 5 \<and> distinct (map k_id (api_keys s))
       \<and> UUID e key_id = Some kid
       \<and> find (\<lambda>k. k_id k = kid \<and> owner_id k = u_id u) (api_keys s) = Some key
       \<and> k_is_active key
       \<and> parse_expiry (utcnow e) (kc_expiry kd) = Inr t
       \<and> new_id \<notin> k_id ` set (api_keys s)
       \<and> hash_api_key e (generate_api_key token) \<notin> key_hash ` set (api_keys s)
      \<longrightarrow> (\<exists>s1 s2. revoke_api_key e s u key_id = (Inr (key_id, k_name key), s1)
             \<and> active_count s1 (u_id u) = 4
             \<and> create_api_key e s1 u kd token new_id
                 = (Inr (generate_api_key token, Some t), s2)
             \<and> active_count s2 (u_id u) = 5
             \<and> length (api_keys s2) = Suc (length (api_keys s))))"
proof (intro conjI impI)
  assume "u_is_active u \<and> 5 \<le> active_count s (u_id u)"
  then show "create_api_key e s u kd token new_id = (Inl (HTTPException 400 Maximum_active_keys), s)"
    by (simp add: create_api_key_def)
next
  assume a: "u_is_active u \<and> active_count s (u_id u) = 5 \<and> distinct (map k_id (api_keys s))
       \<and> UUID e key_id = Some kid
       \<and> find (\<lambda>k. k_id k = kid \<and> owner_id k = u_id u) (api_keys s) = Some key
       \<and> k_is_active key
       \<and> parse_expiry (utcnow e) (kc_expiry kd) = Inr t
       \<and> new_id \<notin> k_id ` set (api_keys s)
       \<and> hash_api_key e (generate_api_key token) \<notin> key_hash ` set (api_keys s)"
  let ?Q = "\<lambda>k. owner_id k = u_id u \<and> k_is_active k"
  let ?key' = "key\<lparr>k_is_active := False\<rparr>"
  define s1 where "s1 = s\<lparr>api_keys := update_api_key ?key' (api_keys s)\<rparr>"
  define nk where "nk = \<lparr>k_id = new_id, k_name = kc_name kd,
      key_prefix = get_api_key_prefix (generate_api_key token),
      key_hash = hash_api_key e (generate_api_key token), owner_id = u_id u,
      permissions = JList (map JStr (kc_permissions kd)),
      expires_at = Some t, k_is_active = True\<rparr>"
  define s2 where "s2 = s1\<lparr>api_keys := api_keys s1 @ [nk]\<rparr>"
  from a have f: "find (\<lambda>k. k_id k = kid \<and> owner_id k = u_id u) (api_keys s) = Some key" by simp
  then have mem: "key \<in> set (api_keys s)" and own: "owner_id key = u_id u"
    by (auto simp: find_Some_iff)
  have rev: "revoke_api_key e s u key_id = (Inr (key_id, k_name key), s1)"
    using a by (simp add: revoke_api_key_def s1_def)
  have "Suc (length (filter ?Q (update_api_key ?key' (api_keys s)))) = length (filter ?Q (api_keys s))"
    by (rule revoke_count [OF _ mem]) (use a own in simp_all)
  then have c1: "active_count s1 (u_id u) = 4"
    using a by (simp add: active_count_def s1_def)
  have ids: "new_id \<notin> k_id ` set (api_keys s1)"
  proof -
    have "k_id ` set (api_keys s1) = set (map k_id (api_keys s1))" by simp
    also have "\<dots> = set (map k_id (api_keys s))" by (simp add: s1_def update_api_key_ids)
    finally show ?thesis using a by simp
  qed
  have hs: "hash_api_key e (generate_api_key token) \<notin> key_hash ` set (api_keys s1)"
    using update_api_key_hashes [OF mem, of ?key'] a by (auto simp: s1_def)
  have ins: "insert_api_key nk (api_keys s1) = Inr (api_keys s1 @ [nk])"
    using ids hs by (simp add: insert_api_key_def nk_def)
  have cr: "create_api_key e s1 u kd token new_id = (Inr (generate_api_key token, Some t), s2)"
    using a c1 ins by (simp add: create_api_key_def Let_def nk_def [symmetric] s2_def)
  have c2: "active_count s2 (u_id u) = 5"
    using c1 by (simp add: active_count_def s2_def nk_def)
  have len: "length (api_keys s2) = Suc (length (api_keys s))"
    by (simp add: s2_def s1_def update_api_key_def)
  show "\<exists>s1 s2. revoke_api_key e s u key_id = (Inr (key_id, k_name key), s1)
             \<and> active_count s1 (u_id u) = 4
             \<and> create_api_key e s1 u kd token new_id
                 = (Inr (generate_api_key token, Some t), s2)
             \<and> active_count s2 (u_id u) = 5
             \<and> length (api_keys s2) = Suc (length (api_keys s))"
    using rev c1 cr c2 len by blast
qed

lemma digit_char_is_digit: "d < 10 \<Longrightarrow> is_digit (''0123456789'' ! d)"
proof -
  assume "d < 10"
  then have "d \<in> {0, 1, 2, 3, 4, 5, 6, 7, 8, 9}" by auto
  then show ?thesis by (auto simp: is_digit_def)
qed

lemma decimal_digits_all: "list_all is_digit (decimal_digits n)"
proof (induction n rule: decimal_digits.induct)
  case (1 n)
  show ?case
  proof (cases "n < 10")
    case True
    then show ?thesis by (subst decimal_digits.simps) (simp add: digit_char_is_digit)
  next
    case False
    have "n mod 10 < 10" by simp
    then have "is_digit (''0123456789'' ! (n mod 10))" by (rule digit_char_is_digit)
    then show ?thesis using False 1 by (subst decimal_digits.simps) simp
  qed
qed

lemma decimal_digits_length: "0 < k \<Longrightarrow> n < 10 ^ k \<Longrightarrow> length (decimal_digits n) \<le> k"
proof (induction k arbitrary: n)
  case 0
  then show ?case by simp
next
  case (Suc k)
  show ?case
  proof (cases "n < 10")
    case True
    then show ?thesis by (subst decimal_digits.simps) simp
  next
    case False
    then have k: "0 < k" using Suc.prems by (cases k) auto
    have "n div 10 < 10 ^ k" using Suc.prems by (simp add: less_mult_imp_div_less mult.commute)
    then have "length (decimal_digits (n div 10)) \<le> k" using Suc.IH k by simp
    then show ?thesis using False by (subst decimal_digits.simps) simp
  qed
qed

lemma wallet_number_shape:
  assumes "n < 10 ^ 12"
  shows "length (generate_wallet_number n) = 13" and "list_all is_digit (generate_wallet_number n)"
    and "hd (generate_wallet_number n) = CHR ''4''"
proof -
  have "length (decimal_digits n) \<le> 12" using decimal_digits_length [of 12 n] assms by simp
  then show "length (generate_wallet_number n) = 13"
    by (simp add: generate_wallet_number_def format_012d_def)
  have z: "is_digit CHR ''0''" and f: "is_digit CHR ''4''" by (simp_all add: is_digit_def)
  show "list_all is_digit (generate_wallet_number n)"
    using decimal_digits_all [of n] z f
    by (auto simp: generate_wallet_number_def format_012d_def list_all_iff)
  show "hd (generate_wallet_number n) = CHR ''4''"
    by (simp add: generate_wallet_number_def)
qed

text \<open>
  C6 (amended). When no user matches the external id or the email, and the wallet number
  drawn (once) and the generated keys collide with no stored row, the call stores the new
  user and exactly one wallet for that user, with balance 0 and a wallet number of 13
  decimal digits that no other wallet has.
\<close>

theorem new_user_wallet_amended:
  assumes em: "items_get kvs ''email'' = JStr em" "em \<noteq> []"
    and gid: "storable_str (items_get kvs ''id'') = Some gid"
    and nm: "storable_str (items_get kvs ''name'') = Some nm"
    and pic: "storable_str (items_get kvs ''picture'') = Some pic"
    and nomatch: "find (\<lambda>u. google_id u = gid \<or> email u = em) (users s) = None"
    and uid: "new_uid \<notin> u_id ` set (users s)" "new_uid \<notin> w_user_id ` set (wallets s)"
    and wid: "new_wid \<notin> w_id ` set (wallets s)"
    and num: "n < 10 ^ 12" "generate_wallet_number n \<notin> wallet_number ` set (wallets s)"
  shows "\<exists>s'. google_callback e s (JDict kvs) new_uid new_wid n
             = (Inr (new_uid, em, nm, create_access_token e new_uid), s')
          \<and> users s' = users s @ [\<lparr>u_id = new_uid, email = em, u_name = nm, picture = pic,
                                    google_id = gid, u_is_active = True\<rparr>]
          \<and> wallets s' = wallets s @ [\<lparr>w_id = new_wid, w_user_id = new_uid,
                                        wallet_number = generate_wallet_number n, balance = 0\<rparr>]
          \<and> filter (\<lambda>w. w_user_id w = new_uid) (wallets s')
              = [\<lparr>w_id = new_wid, w_user_id = new_uid,
                  wallet_number = generate_wallet_number n, balance = 0\<rparr>]
          \<and> filter (\<lambda>w. wallet_number w = generate_wallet_number n) (wallets s')
              = [\<lparr>w_id = new_wid, w_user_id = new_uid,
                  wallet_number = generate_wallet_number n, balance = 0\<rparr>]
          \<and> length (generate_wallet_number n) = 13
          \<and> list_all is_digit (generate_wallet_number n)"
proof -
  let ?u = "\<lparr>u_id = new_uid, email = em, u_name = nm, picture = pic,
             google_id = gid, u_is_active = True\<rparr>"
  let ?w = "\<lparr>w_id = new_wid, w_user_id = new_uid,
             wallet_number = generate_wallet_number n, balance = 0\<rparr>"
  from nomatch have nm': "\<forall>x\<in>set (users s). google_id x \<noteq> gid \<and> email x \<noteq> em"
    by (auto simp: find_None_iff)
  have iu: "insert_user ?u (users s) = Inr (users s @ [?u])"
    using uid(1) nm' by (auto simp: insert_user_def)
  have iw: "insert_wallet ?w (wallets s) = Inr (wallets s @ [?w])"
    using uid(2) wid num(2) by (simp add: insert_wallet_def)
  have call: "google_callback e s (JDict kvs) new_uid new_wid n
      = (Inr (new_uid, em, nm, create_access_token e new_uid),
         s\<lparr>users := users s @ [?u], wallets := wallets s @ [?w]\<rparr>)"
    using em gid nm pic nomatch iu iw
    by (simp add: google_callback_def Let_def storable_str_def)
  have f1: "filter (\<lambda>w. w_user_id w = new_uid) (wallets s) = []"
    using uid(2) by (auto simp: filter_empty_conv)
  have f2: "filter (\<lambda>w. wallet_number w = generate_wallet_number n) (wallets s) = []"
    using num(2) by (force simp: filter_empty_conv)
  show ?thesis
    using call f1 f2 wallet_number_shape(1,2) [OF num(1)] by simp
qed

lemma ex_wallet_number_2: "generate_wallet_number 2 = ''4000000000002''"
  by (simp add: generate_wallet_number_def format_012d_def decimal_digits.simps
      numeral_eq_Suc)

lemma ex_wallet_number_7: "generate_wallet_number 7 = ''4000000000007''"
  by (simp add: generate_wallet_number_def format_012d_def decimal_digits.simps
      numeral_eq_Suc)

theorem api_key_quota_witness:
  "create_api_key ex_env ex_keys_db ex_alice ex_key_data ''ff'' 6
     = (Inl (HTTPException 400 Maximum_active_keys), ex_keys_db)
   \<and> active_count (snd (revoke_api_key ex_env ex_keys_db ex_alice ''k1'')) 1 = 4
   \<and> fst (create_api_key ex_env (snd (revoke_api_key ex_env ex_keys_db ex_alice ''k1''))
           ex_alice ex_key_data ''ff'' 6)
       = Inr (''sk_live_ff'', Some (63929347200000000 + 86400000000))"
proof -
  have a: "u_is_active ex_alice" by (simp add: ex_alice_def)
  have c: "active_count ex_keys_db (u_id ex_alice) = 5"
    by (simp add: active_count_def ex_keys_db_def ex_key_def ex_alice_def)
  have d: "distinct (map k_id (api_keys ex_keys_db))"
    by (simp add: ex_keys_db_def ex_key_def)
  have u: "UUID ex_env ''k1'' = Some 1" by (simp add: ex_env_def)
  have f: "find (\<lambda>k. k_id k = 1 \<and> owner_id k = u_id ex_alice) (api_keys ex_keys_db)
             = Some (ex_key 1)"
    by (simp add: ex_keys_db_def ex_key_def ex_alice_def)
  have k: "k_is_active (ex_key 1)" by (simp add: ex_key_def)
  have p: "parse_expiry (utcnow ex_env) (kc_expiry ex_key_data)
             = Inr (63929347200000000 + 86400000000)"
    by (simp add: ex_env_def ex_key_data_def parse_expiry_def py_int_def py_digits_def
        strip_def is_space_def is_digit_def digit_value_def upper_def timedelta_def
        datetime_add_def now_plus_def MAX_DATETIME_def Let_def)
  have i: "6 \<notin> k_id ` set (api_keys ex_keys_db)"
    by (simp add: ex_keys_db_def ex_key_def)
  have h: "hash_api_key ex_env (generate_api_key ''ff'') \<notin> key_hash ` set (api_keys ex_keys_db)"
    by (simp add: hash_api_key_def generate_api_key_def ex_env_def ex_keys_db_def ex_key_def
        numeral_eq_Suc)
  have g: "generate_api_key ''ff'' = ''sk_live_ff''" by (simp add: generate_api_key_def)
  from api_key_quota [of ex_alice ex_keys_db ex_env ex_key_data "''ff''" 6 "''k1''" 1 "ex_key 1"
      "63929347200000000 + 86400000000"] a c d u f k p i h
  show ?thesis by (auto simp: g ex_alice_def)
qed

text \<open>
  C6 (as stated, it fails). No user matches the identity, the wallet number drawn is one
  that a stored wallet already has: the call answers 500, the new user is stored, no
  other number is drawn and the user has no wallet.
\<close>

theorem new_user_wallet_counterexample:
  "find (\<lambda>u. google_id u = Some ''g9'' \<or> email u = ''new@x.com'') (users ex_db) = None
   \<and> fst (google_callback ex_env ex_db ex_user_info 3 30 2)
       = Inl (HTTPException 500 Database_error_handling_user)
   \<and> map u_id (users (snd (google_callback ex_env ex_db ex_user_info 3 30 2))) = [1, 3]
   \<and> filter (\<lambda>w. w_user_id w = 3)
        (wallets (snd (google_callback ex_env ex_db ex_user_info 3 30 2))) = []"
  by (simp add: google_callback_def items_get_def storable_str_def insert_user_def
      insert_wallet_def ex_wallet_number_2 ex_user_info_def ex_db_def ex_alice_def
      ex_wallet_a_def ex_wallet_b_def Let_def)

theorem new_user_wallet_amended_witness:
  "fst (google_callback ex_env ex_db ex_user_info 3 30 7) = Inr (3, ''new@x.com'', Some ''New'', ''jwt'')
   \<and> filter (\<lambda>w. w_user_id w = 3) (wallets (snd (google_callback ex_env ex_db ex_user_info 3 30 7)))
       = [\<lparr>w_id = 30, w_user_id = 3, wallet_number = ''4000000000007'', balance = 0\<rparr>]"
proof -
  have 1: "items_get [(''id'', JStr ''g9''), (''email'', JStr ''new@x.com''), (''name'', JStr ''New'')]
             ''email'' = JStr ''new@x.com''" "''new@x.com'' \<noteq> []"
    by (simp_all add: items_get_def)
  have 2: "storable_str (items_get [(''id'', JStr ''g9''), (''email'', JStr ''new@x.com''),
             (''name'', JStr ''New'')] ''id'') = Some (Some ''g9'')"
    by (simp add: items_get_def storable_str_def)
  have 3: "storable_str (items_get [(''id'', JStr ''g9''), (''email'', JStr ''new@x.com''),
             (''name'', JStr ''New'')] ''name'') = Some (Some ''New'')"
    by (simp add: items_get_def storable_str_def)
  have 4: "storable_str (items_get [(''id'', JStr ''g9''), (''email'', JStr ''new@x.com''),
             (''name'', JStr ''New'')] ''picture'') = Some None"
    by (simp add: items_get_def storable_str_def)
  have 5: "find (\<lambda>u. google_id u = Some ''g9'' \<or> email u = ''new@x.com'') (users ex_db) = None"
    by (simp add: ex_db_def ex_alice_def)
  have 6: "3 \<notin> u_id ` set (users ex_db)" "3 \<notin> w_user_id ` set (wallets ex_db)"
    by (simp_all add: ex_db_def ex_alice_def ex_wallet_a_def ex_wallet_b_def)
  have 7: "30 \<notin> w_id ` set (wallets ex_db)"
    by (simp add: ex_db_def ex_wallet_a_def ex_wallet_b_def)
  have 8: "(7::nat) < 10 ^ 12" "generate_wallet_number 7 \<notin> wallet_number ` set (wallets ex_db)"
    by (simp_all add: ex_wallet_number_7 ex_db_def ex_wallet_a_def ex_wallet_b_def)
  from new_user_wallet_amended [OF 1 2 3 4 5 6 7 8, of ex_env]
  show ?thesis by (auto simp: ex_user_info_def ex_wallet_number_7 ex_env_def)
qed

end
